theory Spec2Isabelle
  imports Complex_Main "HOL-Library.AList"
begin

section \<open>The spoof app's device registry: data model\<close>

text \<open>
  The program is \<^verbatim>\<open>src/main.py\<close>. It keeps a list of device dictionaries
  (\<^verbatim>\<open>self.devices\<close>), shows them in a seven-column table, validates local edits of
  the table and exchanges events with a server through a socket.io client.

  Values produced by \<^verbatim>\<open>json.loads\<close> are modelled by the datatype \<open>json\<close>. A Python
  dictionary keeps the insertion order of its keys, so an object is an association
  list; a key is looked up with \<open>map_of\<close>. Python's \<^verbatim>\<open>int\<close> is unbounded (\<open>int\<close>);
  a \<^verbatim>\<open>float\<close> is a rational, an infinity or a NaN. The program never computes with a
  float: it only tests its truth value.
\<close>

datatype pyfloat = Finite rat | PosInf | NegInf | NaN

datatype json =
    JNull
  | JBool bool
  | JInt int
  | JFloat pyfloat
  | JStr string
  | JArr "json list"
  | JObj "(string \<times> json) list"

text \<open>The exceptions that \<^verbatim>\<open>main.py\<close> can let escape from the modelled functions.\<close>

datatype error = JSONDecodeError | KeyError | TypeError

text \<open>
  A device is a dictionary with the keys \<^verbatim>\<open>ipAddress\<close>, \<^verbatim>\<open>name\<close>,
  \<^verbatim>\<open>description\<close>, \<^verbatim>\<open>state\<close>, \<^verbatim>\<open>status\<close>, \<^verbatim>\<open>faultStatus\<close> and
  \<^verbatim>\<open>connected\<close>. The outbound events carry a copy of the dictionary from which the
  key \<^verbatim>\<open>connected\<close> has been deleted: that is the record \<open>payload\<close>, and a device
  extends it by the field \<open>connected\<close>. \<^verbatim>\<open>device.copy()\<close> followed by
  \<^verbatim>\<open>del device["connected"]\<close> is \<open>payload.truncate\<close>.
\<close>

record payload =
  ipAddress :: string
  name :: string
  description :: string
  state :: json
  status :: string
  faultStatus :: string

record device = payload +
  connected :: bool

text \<open>
  The update event of the server: the handler reads the keys \<^verbatim>\<open>ipAddress\<close>,
  \<^verbatim>\<open>state\<close> and \<^verbatim>\<open>status\<close> of it and no other.
\<close>

record device_update =
  upd_ipAddress :: string
  upd_state :: json
  upd_status :: string

text \<open>One row of \<^verbatim>\<open>csv.DictReader\<close>: every column is a string.\<close>

record csv_row =
  csv_ipAddress :: string
  csv_name :: string
  csv_description :: string
  csv_state :: string
  csv_status :: string
  csv_faultStatus :: string
  csv_connected :: string

text \<open>
  The calls of \<^verbatim>\<open>self.sio.emit\<close>, in the order the program issues them: the event
  name and the data.
\<close>

datatype event =
    Unconnected_iot_devices "payload list"
  | Spoof_app_iot_device_update payload

text \<open>
  \<^verbatim>\<open>json.loads\<close> and \<^verbatim>\<open>json.dumps(_, indent=4)\<close> belong to Python's library; they
  are parameters of the model. \<open>loads\<close> returns \<open>None\<close> where \<^verbatim>\<open>json.loads\<close> raises
  \<^verbatim>\<open>JSONDecodeError\<close>.
\<close>

record json_lib =
  loads :: "string \<Rightarrow> json option"
  dumps :: "json \<Rightarrow> string"

text \<open>
  The application object: \<^verbatim>\<open>self.devices\<close>, \<^verbatim>\<open>self.internal_change\<close>,
  \<^verbatim>\<open>self.connected\<close>, the items of \<^verbatim>\<open>self.table\<close> (a cell without an item is
  \<open>None\<close>) and the log of the \<^verbatim>\<open>self.sio.emit\<close> calls.

  The registry entries are distinct dictionary objects (the loader builds one per row
  and a merged device is appended only when its address is new), and no function keeps
  a reference to a device outside the registry after it returns, so the in-place
  updates of the source are updates of one list element.
\<close>

record app =
  self_devices :: "device list"
  self_internal_change :: bool
  self_connected :: bool
  self_table :: "string option list list"
  sio_emitted :: "event list"

section \<open>The state schema\<close>

text \<open>
  \<^verbatim>\<open>DEVICE_STATE_SCHEMA\<close> read with the meaning \<^verbatim>\<open>jsonschema.validate\<close> gives its
  keywords: \<^verbatim>\<open>type\<close> tests the kind of the instance (a boolean is not a number),
  \<^verbatim>\<open>oneOf\<close> holds when exactly one alternative does, \<^verbatim>\<open>required\<close> asks for the
  listed keys, \<^verbatim>\<open>properties\<close> constrains the listed keys that are present and says
  nothing about other keys, and \<^verbatim>\<open>items\<close> constrains every element of an array.
\<close>

fun type_string :: "json \<Rightarrow> bool" where
  "type_string (JStr _) = True"
| "type_string _ = False"

fun type_number :: "json \<Rightarrow> bool" where
  "type_number (JInt _) = True"
| "type_number (JFloat _) = True"
| "type_number _ = False"

fun type_boolean :: "json \<Rightarrow> bool" where
  "type_boolean (JBool _) = True"
| "type_boolean _ = False"

definition oneOf :: "(json \<Rightarrow> bool) list \<Rightarrow> json \<Rightarrow> bool" where
  "oneOf alternatives j = (length (filter (\<lambda>p. p j) alternatives) = 1)"

definition required :: "string list \<Rightarrow> (string \<times> json) list \<Rightarrow> bool" where
  "required keys kvs = list_all (\<lambda>k. map_of kvs k \<noteq> None) keys"

definition properties :: "(string \<times> (json \<Rightarrow> bool)) list \<Rightarrow> (string \<times> json) list \<Rightarrow> bool" where
  "properties props kvs =
     list_all (\<lambda>(k, p). case map_of kvs k of None \<Rightarrow> True | Some v \<Rightarrow> p v) props"

fun schema_item :: "json \<Rightarrow> bool" where
  "schema_item (JObj kvs) =
     (properties
        [(''fieldName'', type_string),
         (''datatype'', type_string),
         (''value'', oneOf [type_string, type_number, type_boolean])] kvs
      \<and> required [''fieldName'', ''datatype'', ''value''] kvs)"
| "schema_item _ = False"

fun DEVICE_STATE_SCHEMA :: "json \<Rightarrow> bool" where
  "DEVICE_STATE_SCHEMA (JArr entries) = list_all schema_item entries"
| "DEVICE_STATE_SCHEMA _ = False"

text \<open>
  \<^verbatim>\<open>validate(instance, DEVICE_STATE_SCHEMA)\<close>: \<open>True\<close> where it returns, \<open>False\<close> where
  it raises \<^verbatim>\<open>ValidationError\<close>.
\<close>

definition validate :: "json \<Rightarrow> bool" where
  "validate instance = DEVICE_STATE_SCHEMA instance"

section \<open>Python's operations on parsed values\<close>

text \<open>An exception ends the computation: the rest runs only on a normal result.\<close>

definition and_then :: "error + 'a \<Rightarrow> ('a \<Rightarrow> error + 'b) \<Rightarrow> error + 'b" where
  "and_then r f = (case r of Inl e \<Rightarrow> Inl e | Inr x \<Rightarrow> f x)"

text \<open>A \<^verbatim>\<open>for\<close> loop or comprehension whose body may raise.\<close>

fun for_each :: "('a \<Rightarrow> error + 'b) \<Rightarrow> 'a list \<Rightarrow> error + 'b list" where
  "for_each f [] = Inr []"
| "for_each f (x # xs) =
     and_then (f x) (\<lambda>y. and_then (for_each f xs) (\<lambda>ys. Inr (y # ys)))"

text \<open>\<^verbatim>\<open>bool(x)\<close>: Python's truth value.\<close>

fun bool :: "json \<Rightarrow> bool" where
  "bool JNull = False"
| "bool (JBool b) = b"
| "bool (JInt i) = (i \<noteq> 0)"
| "bool (JFloat f) = (f \<noteq> Finite 0)"
| "bool (JStr s) = (s \<noteq> [])"
| "bool (JArr xs) = (xs \<noteq> [])"
| "bool (JObj kvs) = (kvs \<noteq> [])"

text \<open>
  \<^verbatim>\<open>for entry in x\<close>: a list yields its elements, a dictionary its keys, a string
  its characters; any other value raises \<^verbatim>\<open>TypeError\<close>.
\<close>

fun iterate :: "json \<Rightarrow> error + json list" where
  "iterate (JArr xs) = Inr xs"
| "iterate (JObj kvs) = Inr (map (\<lambda>kv. JStr (fst kv)) kvs)"
| "iterate (JStr s) = Inr (map (\<lambda>c. JStr [c]) s)"
| "iterate _ = Inl TypeError"

text \<open>
  \<^verbatim>\<open>x[key]\<close> with a string key: a dictionary without the key raises \<^verbatim>\<open>KeyError\<close>,
  a value that is not a dictionary raises \<^verbatim>\<open>TypeError\<close>.
\<close>

fun getitem :: "json \<Rightarrow> string \<Rightarrow> error + json" where
  "getitem (JObj kvs) key = (case map_of kvs key of None \<Rightarrow> Inl KeyError | Some v \<Rightarrow> Inr v)"
| "getitem _ key = Inl TypeError"

text \<open>\<^verbatim>\<open>x[key] = v\<close> with a string key: an existing key keeps its position.\<close>

fun setitem :: "json \<Rightarrow> string \<Rightarrow> json \<Rightarrow> error + json" where
  "setitem (JObj kvs) key v = Inr (JObj (AList.update key v kvs))"
| "setitem _ key v = Inl TypeError"

section \<open>Bulk load\<close>

text \<open>
  The body of the inner loop of \<^verbatim>\<open>read_unconnected_iot_devices\<close>:
  \<^verbatim>\<open>if entry["datatype"] == "boolean": entry["value"] = bool(entry["value"])\<close>.
\<close>

definition coerce_entry :: "json \<Rightarrow> error + json" where
  "coerce_entry entry =
     and_then (getitem entry ''datatype'') (\<lambda>datatype.
       if datatype = JStr ''boolean''
       then and_then (getitem entry ''value'') (\<lambda>v. setitem entry ''value'' (JBool (bool v)))
       else Inr entry)"

text \<open>
  \<^verbatim>\<open>for entry in device["state"]\<close>. The entries of a list are updated in place. The
  entries of a dictionary or of a string are strings, on which the body raises, so
  such a state is left as it is only when it is empty.
\<close>

definition coerce_state :: "json \<Rightarrow> error + json" where
  "coerce_state st =
     and_then (iterate st) (\<lambda>entries.
     and_then (for_each coerce_entry entries) (\<lambda>entries'.
       Inr (case st of JArr _ \<Rightarrow> JArr entries' | _ \<Rightarrow> st)))"

text \<open>The body of the outer loop, for one row of the file.\<close>

definition read_device :: "json_lib \<Rightarrow> csv_row \<Rightarrow> error + device" where
  "read_device J row =
     (case loads J (csv_state row) of
        None \<Rightarrow> Inl JSONDecodeError
      | Some st \<Rightarrow>
          and_then (coerce_state st) (\<lambda>st'.
            Inr \<lparr>ipAddress = csv_ipAddress row, name = csv_name row,
                 description = csv_description row, state = st',
                 status = csv_status row, faultStatus = csv_faultStatus row,
                 connected = (csv_connected row = ''true'')\<rparr>))"

text \<open>
  \<^verbatim>\<open>read_unconnected_iot_devices\<close>, given the rows that \<^verbatim>\<open>csv.DictReader\<close> reads
  from the file. The first exception leaves the function, so no device is returned.
\<close>

definition read_unconnected_iot_devices :: "json_lib \<Rightarrow> csv_row list \<Rightarrow> error + device list" where
  "read_unconnected_iot_devices J rows = for_each (read_device J) rows"

section \<open>The registry\<close>

text \<open>
  \<^verbatim>\<open>search_devices\<close> returns the first dictionary of \<^verbatim>\<open>self.devices\<close> whose
  address is the given one, and \<^verbatim>\<open>None\<close> when the loop ends. The callers update
  the dictionary in place, so the model returns its position in the list.
\<close>

fun search_devices :: "device list \<Rightarrow> string \<Rightarrow> nat option" where
  "search_devices [] ip_address = None"
| "search_devices (device # devices) ip_address =
     (if ipAddress device = ip_address then Some 0
      else map_option Suc (search_devices devices ip_address))"

definition sio_emit :: "app \<Rightarrow> event \<Rightarrow> app" where
  "sio_emit s ev = s\<lparr>sio_emitted := sio_emitted s @ [ev]\<rparr>"

definition send_iot_device_update :: "app \<Rightarrow> device \<Rightarrow> app" where
  "send_iot_device_update s device =
     (if \<not> connected device then s
      else sio_emit s (Spoof_app_iot_device_update (payload.truncate device)))"

definition send_unconnected_iot_devices :: "app \<Rightarrow> app" where
  "send_unconnected_iot_devices s =
     (if \<not> self_connected s then s
      else let unconnected_iot_devices = filter (\<lambda>device. \<not> connected device) (self_devices s)
           in sio_emit s (Unconnected_iot_devices (map payload.truncate unconnected_iot_devices)))"

section \<open>The table and the edit handler\<close>

text \<open>
  \<^verbatim>\<open>self.table.item(row, col)\<close> is the item of a cell, and \<^verbatim>\<open>None\<close> for a cell
  that has no item or lies outside the table. \<open>table_put\<close> stores an item in a cell
  of the table. \<^verbatim>\<open>setRowCount\<close> drops the rows beyond the count and adds rows
  without items.
\<close>

definition table_item :: "string option list list \<Rightarrow> nat \<Rightarrow> nat \<Rightarrow> string option" where
  "table_item t row col =
     (if row < length t \<and> col < length (t ! row) then t ! row ! col else None)"

definition in_table :: "string option list list \<Rightarrow> nat \<Rightarrow> nat \<Rightarrow> bool" where
  "in_table t row col = (row < length t \<and> col < length (t ! row))"

definition table_put :: "string option list list \<Rightarrow> nat \<Rightarrow> nat \<Rightarrow> string \<Rightarrow> string option list list" where
  "table_put t row col text = t[row := (t ! row)[col := Some text]]"

definition setRowCount :: "nat \<Rightarrow> string option list list \<Rightarrow> string option list list" where
  "setRowCount n t = take n t @ replicate (n - length t) (replicate 7 None)"

definition store_device :: "app \<Rightarrow> nat \<Rightarrow> device \<Rightarrow> app" where
  "store_device s i device = s\<lparr>self_devices := (self_devices s)[i := device]\<rparr>"

text \<open>
  \<^verbatim>\<open>handle_cell_change\<close> is the slot of the table's \<^verbatim>\<open>itemChanged\<close> signal; the
  item is given by its row, its column and its text. \<^verbatim>\<open>self.table.setItem\<close> puts an
  item into a cell of the table and the table then emits \<^verbatim>\<open>itemChanged\<close>, which
  runs the slot again: the two functions are mutually recursive, and the flag
  \<^verbatim>\<open>internal_change\<close> ends the recursion. Outside the table \<^verbatim>\<open>setItem\<close> does
  nothing.

  \<^verbatim>\<open>except exceptions.ValidationError\<close> catches what \<^verbatim>\<open>validate\<close> raises; the
  \<^verbatim>\<open>JSONDecodeError\<close> of \<^verbatim>\<open>json.loads\<close> is not a \<^verbatim>\<open>ValidationError\<close> and leaves
  the handler. A column other than 4, 5 and 6 matches no case and reaches the last
  line.
\<close>

function handle_cell_change :: "json_lib \<Rightarrow> app \<Rightarrow> nat \<times> nat \<times> string \<Rightarrow> error + app"
  and setItem :: "json_lib \<Rightarrow> app \<Rightarrow> nat \<Rightarrow> nat \<Rightarrow> string \<Rightarrow> error + app" where
  "handle_cell_change J s (row, col, text) =
     (if self_internal_change s then Inr s
      else case table_item (self_table s) row 1 of
        None \<Rightarrow> Inr s
      | Some ip_address \<Rightarrow>
          (case search_devices (self_devices s) ip_address of
             None \<Rightarrow> Inr s
           | Some i \<Rightarrow>
               (let device = self_devices s ! i in
                if col = 4 then
                  (case loads J text of
                     None \<Rightarrow> Inl JSONDecodeError
                   | Some instance \<Rightarrow>
                       if validate instance then
                         (let device' = device\<lparr>state := instance\<rparr>
                          in Inr (send_iot_device_update (store_device s i device') device'))
                       else
                         and_then
                           (setItem J (s\<lparr>self_internal_change := True\<rparr>) row col
                              (dumps J (state device)))
                           (\<lambda>s'. Inr (s'\<lparr>self_internal_change := False\<rparr>)))
                else if col = 5 then
                  (if text \<noteq> ''On'' \<and> text \<noteq> ''Off'' then
                     and_then
                       (setItem J (s\<lparr>self_internal_change := True\<rparr>) row col (status device))
                       (\<lambda>s'. Inr (s'\<lparr>self_internal_change := False\<rparr>))
                   else
                     (let device' = device\<lparr>status := text\<rparr>
                      in Inr (send_iot_device_update (store_device s i device') device')))
                else if col = 6 then
                  (if text \<noteq> ''Ok'' \<and> text \<noteq> ''Fault'' then
                     and_then
                       (setItem J (s\<lparr>self_internal_change := True\<rparr>) row col
                          (faultStatus device))
                       (\<lambda>s'. Inr (s'\<lparr>self_internal_change := False\<rparr>))
                   else
                     (let device' = device\<lparr>faultStatus := text\<rparr>
                      in Inr (send_iot_device_update (store_device s i device') device')))
                else Inr (send_iot_device_update s device))))"
| "setItem J s row col text =
     (if in_table (self_table s) row col
      then handle_cell_change J (s\<lparr>self_table := table_put (self_table s) row col text\<rparr>)
             (row, col, text)
      else Inr s)"
  by pat_completeness auto
termination
  by (relation "measure (\<lambda>x. case x of
          Inl (J, s, item) \<Rightarrow> (if self_internal_change s then 0 else 2)
        | Inr (J, s, row, col, text) \<Rightarrow> (if self_internal_change s then 1 else 3))")
     auto

text \<open>\<^verbatim>\<open>str(b)\<close> for a boolean.\<close>

definition str :: "bool \<Rightarrow> string" where
  "str b = (if b then ''True'' else ''False'')"

text \<open>The body of the \<^verbatim>\<open>enumerate\<close> loop of \<^verbatim>\<open>populate_table\<close>.\<close>

definition populate_row :: "json_lib \<Rightarrow> app \<Rightarrow> nat \<Rightarrow> device \<Rightarrow> error + app" where
  "populate_row J s row device =
     and_then (setItem J s row 0 (str (connected device))) (\<lambda>s.
     and_then (setItem J s row 1 (ipAddress device)) (\<lambda>s.
     and_then (setItem J s row 2 (name device)) (\<lambda>s.
     and_then (setItem J s row 3 (description device)) (\<lambda>s.
     and_then (setItem J s row 4 (dumps J (state device))) (\<lambda>s.
     and_then (setItem J s row 5 (status device)) (\<lambda>s.
     setItem J s row 6 (faultStatus device)))))))"

fun populate_rows :: "json_lib \<Rightarrow> app \<Rightarrow> nat \<Rightarrow> device list \<Rightarrow> error + app" where
  "populate_rows J s row [] = Inr s"
| "populate_rows J s row (device # devices) =
     and_then (populate_row J s row device) (\<lambda>s'. populate_rows J s' (Suc row) devices)"

text \<open>
  \<^verbatim>\<open>populate_table\<close>. The resize modes and the item flags that follow the loop
  concern the display only (the flags make the columns 0 to 3 read-only for the
  operator) and are not part of the state.
\<close>

definition populate_table :: "json_lib \<Rightarrow> app \<Rightarrow> error + app" where
  "populate_table J s =
     (let s1 = s\<lparr>self_internal_change := True\<rparr>;
          s2 = s1\<lparr>self_table := setRowCount (length (self_devices s1)) (self_table s1)\<rparr>
      in and_then (populate_rows J s2 0 (self_devices s2))
           (\<lambda>s3. Inr (s3\<lparr>self_internal_change := False\<rparr>)))"

section \<open>The handlers of the channel\<close>

text \<open>
  The signal \<^verbatim>\<open>update_table\<close> is connected to \<^verbatim>\<open>populate_table\<close>; the handlers are
  taken to run one after the other, each to its end.
\<close>

fun merge_devices :: "device list \<Rightarrow> device list \<Rightarrow> device list" where
  "merge_devices registry [] = registry"
| "merge_devices registry (device # devices) =
     (let device' = device\<lparr>connected := True\<rparr>
      in if search_devices registry (ipAddress device') = None
         then merge_devices (registry @ [device']) devices
         else merge_devices registry devices)"

definition receive_connected_iot_devices :: "json_lib \<Rightarrow> app \<Rightarrow> device list \<Rightarrow> error + app" where
  "receive_connected_iot_devices J s devices =
     populate_table J (s\<lparr>self_devices := merge_devices (self_devices s) devices\<rparr>)"

definition receive_iot_device_update :: "json_lib \<Rightarrow> app \<Rightarrow> device_update \<Rightarrow> error + app" where
  "receive_iot_device_update J s update =
     (case search_devices (self_devices s) (upd_ipAddress update) of
        None \<Rightarrow> populate_table J s
      | Some i \<Rightarrow>
          populate_table J
            (store_device s i
               ((self_devices s ! i)\<lparr>state := upd_state update, status := upd_status update,
                                      connected := True\<rparr>)))"

text \<open>
  \<^verbatim>\<open>connect_handler\<close>; \<open>ok\<close> tells whether \<^verbatim>\<open>self.sio.connect\<close> returns (it
  raises \<^verbatim>\<open>ConnectionError\<close> otherwise).
\<close>

definition connect_handler :: "app \<Rightarrow> bool \<Rightarrow> app" where
  "connect_handler s ok =
     (if \<not> ok then s else send_unconnected_iot_devices (s\<lparr>self_connected := True\<rparr>))"

definition disconnect_handler :: "app \<Rightarrow> app" where
  "disconnect_handler s = (if \<not> self_connected s then s else s\<lparr>self_connected := False\<rparr>)"

text \<open>
  \<^verbatim>\<open>SpoofApp.__init__\<close>: the devices of the file, a table of as many rows and seven
  columns, filled by \<^verbatim>\<open>populate_table\<close>, and a channel that is not connected.
\<close>

definition init :: "json_lib \<Rightarrow> csv_row list \<Rightarrow> error + app" where
  "init J rows =
     and_then (read_unconnected_iot_devices J rows) (\<lambda>devices.
     and_then
       (populate_table J
          \<lparr>self_devices = devices, self_internal_change = True, self_connected = False,
           self_table = replicate (length devices) (replicate 7 None), sio_emitted = []\<rparr>)
       (\<lambda>s. Inr (s\<lparr>self_internal_change := False, self_connected := False\<rparr>)))"

section \<open>Vocabulary of the properties\<close>

text \<open>
  What the loop of \<^verbatim>\<open>populate_table\<close> leaves in the table: the seven items of a
  row, and the rows of a list of devices from a given row on.
\<close>

definition fill_row :: "json_lib \<Rightarrow> string option list list \<Rightarrow> nat \<Rightarrow> device \<Rightarrow> string option list list" where
  "fill_row J t row device =
     table_put (table_put (table_put (table_put (table_put (table_put (table_put t
       row 0 (str (connected device)))
       row 1 (ipAddress device))
       row 2 (name device))
       row 3 (description device))
       row 4 (dumps J (state device)))
       row 5 (status device))
       row 6 (faultStatus device)"

fun fill_rows :: "json_lib \<Rightarrow> string option list list \<Rightarrow> nat \<Rightarrow> device list \<Rightarrow> string option list list" where
  "fill_rows J t row [] = t"
| "fill_rows J t row (device # devices) = fill_rows J (fill_row J t row device) (Suc row) devices"

text \<open>
  The seven items that show a device, and the tables all of whose rows have the seven
  columns of \<^verbatim>\<open>QTableWidget(len(self.devices), 7)\<close>.
\<close>

definition render :: "json_lib \<Rightarrow> device \<Rightarrow> string option list" where
  "render J device =
     [Some (str (connected device)), Some (ipAddress device), Some (name device),
      Some (description device), Some (dumps J (state device)), Some (status device),
      Some (faultStatus device)]"

definition seven_columns :: "string option list list \<Rightarrow> bool" where
  "seven_columns t = list_all (\<lambda>cells. length cells = 7) t"

text \<open>A sequence of snapshot events, handled one after the other.\<close>

fun receive_snapshots :: "json_lib \<Rightarrow> app \<Rightarrow> device list list \<Rightarrow> error + app" where
  "receive_snapshots J s [] = Inr s"
| "receive_snapshots J s (devices # snapshots) =
     and_then (receive_connected_iot_devices J s devices) (\<lambda>s'. receive_snapshots J s' snapshots)"


text \<open>
  A state entry is at rest as a boolean when its \<^verbatim>\<open>datatype\<close> is \<^verbatim>\<open>"boolean"\<close>
  and its \<^verbatim>\<open>value\<close> is \<^verbatim>\<open>True\<close> or \<^verbatim>\<open>False\<close>; the entries are the elements of a
  state that is a list.
\<close>

fun entry_boolean_at_rest :: "json \<Rightarrow> bool" where
  "entry_boolean_at_rest (JObj kvs) =
     (if map_of kvs ''datatype'' = Some (JStr ''boolean'')
      then (case map_of kvs ''value'' of Some (JBool _) \<Rightarrow> True | _ \<Rightarrow> False)
      else True)"
| "entry_boolean_at_rest _ = True"

fun booleans_at_rest :: "json \<Rightarrow> bool" where
  "booleans_at_rest (JArr entries) = list_all entry_boolean_at_rest entries"
| "booleans_at_rest _ = True"

text \<open>
  The Validator in the words of the specification: \<open>typed_fields\<close> says that the three
  fields are there, \<^verbatim>\<open>fieldName\<close> and \<^verbatim>\<open>datatype\<close> strings and \<^verbatim>\<open>value\<close> a string,
  a number or a boolean; \<open>spec_entry\<close> adds that the entry carries exactly these three
  fields; \<open>carries_fields\<close> does not.
\<close>

fun typed_fields :: "(string \<times> json) list \<Rightarrow> bool" where
  "typed_fields kvs =
     ((case map_of kvs ''fieldName'' of Some (JStr _) \<Rightarrow> True | _ \<Rightarrow> False)
      \<and> (case map_of kvs ''datatype'' of Some (JStr _) \<Rightarrow> True | _ \<Rightarrow> False)
      \<and> (case map_of kvs ''value'' of
            Some (JStr _) \<Rightarrow> True | Some (JInt _) \<Rightarrow> True | Some (JFloat _) \<Rightarrow> True
          | Some (JBool _) \<Rightarrow> True | _ \<Rightarrow> False))"

fun spec_entry :: "json \<Rightarrow> bool" where
  "spec_entry (JObj kvs) =
     (typed_fields kvs
      \<and> distinct (map fst kvs)
      \<and> list_all (\<lambda>key. key \<in> {''fieldName'', ''datatype'', ''value''}) (map fst kvs))"
| "spec_entry _ = False"

fun spec_candidate :: "json \<Rightarrow> bool" where
  "spec_candidate (JArr entries) = list_all spec_entry entries"
| "spec_candidate _ = False"

fun carries_fields :: "json \<Rightarrow> bool" where
  "carries_fields (JObj kvs) = typed_fields kvs"
| "carries_fields _ = False"

section \<open>Concrete data\<close>

text \<open>
  The device of the specification's scenarios, a second device known to the server
  only, and a stand-in for the JSON library that reads and prints the few texts used
  below.
\<close>

definition sample_state :: json where
  "sample_state =
     JArr [JObj [(''fieldName'', JStr ''temp''), (''datatype'', JStr ''number''),
                 (''value'', JInt 21)]]"

definition textual_boolean_state :: json where
  "textual_boolean_state =
     JArr [JObj [(''fieldName'', JStr ''on''), (''datatype'', JStr ''boolean''),
                 (''value'', JStr ''false'')]]"

definition extra_field_candidate :: json where
  "extra_field_candidate =
     JArr [JObj [(''fieldName'', JStr ''temp''), (''datatype'', JStr ''number''),
                 (''value'', JInt 21), (''unit'', JNull)]]"

definition sample_json :: json_lib where
  \<open>sample_json =
     \<lparr>loads = (\<lambda>text.
        if text = ''[]'' then Some (JArr [])
        else if text = ''{}'' then Some (JObj [])
        else if text = ''[{"fieldName": "temp", "datatype": "number", "value": 21}]''
          then Some sample_state
        else if text = ''[{"fieldName": "on", "datatype": "boolean", "value": "false"}]''
          then Some textual_boolean_state
        else None),
      dumps = (\<lambda>j. if j = JArr [] then ''[]'' else if j = JObj [] then ''{}'' else ''[...]'')\<rparr>\<close>

definition sample_device :: device where
  "sample_device =
     \<lparr>ipAddress = ''10.0.0.5'', name = ''Thermostat'', description = ''Hall'',
      state = sample_state, status = ''Off'', faultStatus = ''Ok'', connected = False\<rparr>"

definition remote_device :: device where
  "remote_device =
     \<lparr>ipAddress = ''10.0.0.9'', name = ''Lamp'', description = ''Porch'',
      state = JArr [], status = ''On'', faultStatus = ''Ok'', connected = False\<rparr>"

definition sample_app :: app where
  "sample_app =
     \<lparr>self_devices = [sample_device], self_internal_change = False, self_connected = False,
      self_table =
        [[Some ''False'', Some ''10.0.0.5'', Some ''Thermostat'', Some ''Hall'',
          Some ''[...]'', Some ''Off'', Some ''Ok'']],
      sio_emitted = []\<rparr>"

definition two_device_app :: app where
  "two_device_app =
     \<lparr>self_devices = [sample_device, remote_device\<lparr>connected := True\<rparr>],
      self_internal_change = False, self_connected = False,
      self_table =
        [[Some ''False'', Some ''10.0.0.5'', Some ''Thermostat'', Some ''Hall'',
          Some ''[...]'', Some ''Off'', Some ''Ok''],
         [Some ''True'', Some ''10.0.0.9'', Some ''Lamp'', Some ''Porch'',
          Some ''[]'', Some ''On'', Some ''Ok'']],
      sio_emitted = []\<rparr>"

definition sample_update :: device_update where
  "sample_update =
     \<lparr>upd_ipAddress = ''10.0.0.5'', upd_state = textual_boolean_state, upd_status = ''On''\<rparr>"

definition unknown_update :: device_update where
  "unknown_update =
     \<lparr>upd_ipAddress = ''10.0.0.7'', upd_state = JArr [], upd_status = ''On''\<rparr>"

definition sample_row :: csv_row where
  \<open>sample_row =
     \<lparr>csv_ipAddress = ''10.0.0.6'', csv_name = ''Switch'', csv_description = ''Door'',
      csv_state = ''[{"fieldName": "on", "datatype": "boolean", "value": "false"}]'',
      csv_status = ''Off'', csv_faultStatus = ''Ok'', csv_connected = ''false''\<rparr>\<close>

definition thermostat_row :: csv_row where
  \<open>thermostat_row =
     \<lparr>csv_ipAddress = ''10.0.0.5'', csv_name = ''Thermostat'', csv_description = ''Hall'',
      csv_state = ''[{"fieldName": "temp", "datatype": "number", "value": 21}]'',
      csv_status = ''Off'', csv_faultStatus = ''Ok'', csv_connected = ''false''\<rparr>\<close>




section \<open>The table is refreshed without running the edit handler\<close>

declare handle_cell_change.simps [simp del] setItem.simps [simp del]

lemma table_put_outside: "\<not> in_table t row col \<Longrightarrow> table_put t row col text = t"
  by (cases "row < length t") (simp_all add: in_table_def table_put_def list_update_beyond)

lemma handle_cell_change_internal:
  "self_internal_change s \<Longrightarrow> handle_cell_change J s item = Inr s"
  by (cases item) (simp add: handle_cell_change.simps)

lemma setItem_internal:
  "self_internal_change s \<Longrightarrow>
   setItem J s row col text = Inr (s\<lparr>self_table := table_put (self_table s) row col text\<rparr>)"
  by (simp add: setItem.simps handle_cell_change_internal table_put_outside)

lemma populate_row_internal:
  "self_internal_change s \<Longrightarrow>
   populate_row J s row device = Inr (s\<lparr>self_table := fill_row J (self_table s) row device\<rparr>)"
  by (simp add: populate_row_def setItem_internal and_then_def fill_row_def)

lemma populate_rows_internal:
  "self_internal_change s \<Longrightarrow>
   populate_rows J s row devices = Inr (s\<lparr>self_table := fill_rows J (self_table s) row devices\<rparr>)"
  by (induction devices arbitrary: s row) (simp_all add: populate_row_internal and_then_def)

lemma populate_table_eq:
  "populate_table J s =
     Inr (s\<lparr>self_internal_change := False,
            self_table := fill_rows J (setRowCount (length (self_devices s)) (self_table s)) 0
                            (self_devices s)\<rparr>)"
  by (simp add: populate_table_def populate_rows_internal and_then_def)

text \<open>On a table of seven columns the refresh shows exactly the devices.\<close>

lemma seven_updates:
  "length xs = 7 \<Longrightarrow>
   xs[0 := a, Suc 0 := b, 2 := c, 3 := d, 4 := e, 5 := f, 6 := g] = [a, b, c, d, e, f, g]"
  by (auto simp: length_Suc_conv eval_nat_numeral)

lemma fill_row_render:
  "row < length t \<Longrightarrow> length (t ! row) = 7 \<Longrightarrow> fill_row J t row device = t[row := render J device]"
  by (simp add: fill_row_def table_put_def render_def seven_updates)

lemma seven_columns_update:
  "seven_columns t \<Longrightarrow> length cells = 7 \<Longrightarrow> seven_columns (t[row := cells])"
  by (auto simp: seven_columns_def list_all_iff dest: set_update_subset_insert [THEN subsetD])

lemma seven_columns_nth: "seven_columns t \<Longrightarrow> row < length t \<Longrightarrow> length (t ! row) = 7"
  by (simp add: seven_columns_def list_all_length)

lemma fill_rows_render:
  "seven_columns t \<Longrightarrow> row + length devices \<le> length t \<Longrightarrow>
   fill_rows J t row devices =
     take row t @ map (render J) devices @ drop (row + length devices) t"
proof (induction devices arbitrary: t row)
  case Nil
  then show ?case by simp
next
  case (Cons d ds)
  let ?t = "t[row := render J d]"
  from Cons.prems have row: "row < length t" by simp
  with Cons.prems have step: "fill_row J t row d = ?t"
    by (simp add: fill_row_render seven_columns_nth)
  have "seven_columns ?t"
    using Cons.prems(1) by (rule seven_columns_update) (simp add: render_def)
  moreover have "Suc row + length ds \<le> length ?t" using Cons.prems by simp
  ultimately have "fill_rows J ?t (Suc row) ds =
      take (Suc row) ?t @ map (render J) ds @ drop (Suc row + length ds) ?t"
    by (rule Cons.IH)
  with row step show ?case
    by (simp add: take_Suc_conv_app_nth)
qed

lemma seven_columns_setRowCount: "seven_columns t \<Longrightarrow> seven_columns (setRowCount n t)"
  by (auto simp: seven_columns_def setRowCount_def list_all_iff dest: in_set_takeD)

lemma length_setRowCount: "length (setRowCount n t) = n"
  by (simp add: setRowCount_def)

lemma populate_table_renders:
  "seven_columns (self_table s) \<Longrightarrow>
   populate_table J s =
     Inr (s\<lparr>self_internal_change := False, self_table := map (render J) (self_devices s)\<rparr>)"
  by (simp add: populate_table_eq fill_rows_render seven_columns_setRowCount length_setRowCount)

text \<open>The sample application is what the start makes of a file with one row.\<close>

lemma sample_app_init: "init sample_json [thermostat_row] = Inr sample_app"
  by (simp add: init_def read_unconnected_iot_devices_def read_device_def thermostat_row_def
        sample_json_def sample_state_def coerce_state_def coerce_entry_def and_then_def
        populate_table_renders seven_columns_def render_def str_def
        sample_app_def sample_device_def)

section \<open>Lookup by address\<close>

lemma search_devices_None: "search_devices ds ip = None \<longleftrightarrow> ip \<notin> ipAddress ` set ds"
  by (induction ds) auto

lemma search_devices_Some:
  "search_devices ds ip = Some i \<Longrightarrow>
   i < length ds \<and> ipAddress (ds ! i) = ip \<and> (\<forall>j<i. ipAddress (ds ! j) \<noteq> ip)"
proof (induction ds arbitrary: i)
  case Nil
  then show ?case by simp
next
  case (Cons d ds)
  show ?case
  proof (cases "ipAddress d = ip")
    case True
    with Cons.prems show ?thesis by simp
  next
    case False
    with Cons.prems obtain k where k: "search_devices ds ip = Some k" "i = Suc k"
      by auto
    from Cons.IH [OF k(1)] False k(2) show ?thesis
      by (auto simp: nth_Cons split: nat.splits)
  qed
qed

section \<open>Merging remote snapshots\<close>

lemma merge_devices_distinct:
  "distinct (map ipAddress registry) \<Longrightarrow> distinct (map ipAddress (merge_devices registry devices))"
  by (induction devices arbitrary: registry) (auto simp: Let_def search_devices_None)

lemma receive_connected_iot_devices_eq:
  "receive_connected_iot_devices J s devices =
     Inr (s\<lparr>self_devices := merge_devices (self_devices s) devices,
            self_internal_change := False,
            self_table := fill_rows J
               (setRowCount (length (merge_devices (self_devices s) devices)) (self_table s)) 0
               (merge_devices (self_devices s) devices)\<rparr>)"
  by (simp add: receive_connected_iot_devices_def populate_table_eq)

text \<open>
  Claim C3. Starting from a registry whose addresses are pairwise distinct, every
  sequence of snapshot merges is handled without an exception and ends in a registry
  whose addresses are pairwise distinct, whatever the snapshots contain (repeated
  addresses included). Every state on the way is the end of a shorter sequence.
\<close>

theorem C3_merges_keep_addresses_unique:
  "distinct (map ipAddress (self_devices s)) \<Longrightarrow>
   \<exists>s'. receive_snapshots J s snapshots = Inr s' \<and> distinct (map ipAddress (self_devices s'))"
proof (induction snapshots arbitrary: s)
  case Nil
  then show ?case by simp
next
  case (Cons devices snapshots)
  let ?s1 = "s\<lparr>self_devices := merge_devices (self_devices s) devices,
            self_internal_change := False,
            self_table := fill_rows J
               (setRowCount (length (merge_devices (self_devices s) devices)) (self_table s)) 0
               (merge_devices (self_devices s) devices)\<rparr>"
  have "distinct (map ipAddress (self_devices ?s1))"
    using Cons.prems by (simp add: merge_devices_distinct)
  from Cons.IH [OF this] show ?case
    by (simp add: receive_connected_iot_devices_eq and_then_def)
qed

theorem C3_witness:
  "distinct (map ipAddress (self_devices sample_app))
   \<and> (\<exists>s'. receive_snapshots sample_json sample_app
              [[remote_device, remote_device], [sample_device, remote_device]] = Inr s'
          \<and> distinct (map ipAddress (self_devices s')))"
proof -
  have h: "distinct (map ipAddress (self_devices sample_app))"
    by (simp add: sample_app_def)
  from h C3_merges_keep_addresses_unique [OF h] show ?thesis by blast
qed

lemma merge_devices_keeps:
  "ip \<in> ipAddress ` set registry \<Longrightarrow> ip \<in> ipAddress ` set (merge_devices registry devices)"
  by (induction devices arbitrary: registry) (auto simp: Let_def)

lemma merge_devices_covers:
  "ipAddress ` set devices \<subseteq> ipAddress ` set (merge_devices registry devices)"
proof (induction devices arbitrary: registry)
  case Nil
  then show ?case by simp
next
  case (Cons d ds)
  show ?case
  proof (cases "search_devices registry (ipAddress d) = None")
    case True
    have "ipAddress d \<in> ipAddress ` set (registry @ [d\<lparr>connected := True\<rparr>])" by simp
    from merge_devices_keeps [OF this] Cons.IH [of "registry @ [d\<lparr>connected := True\<rparr>]"] True
    show ?thesis by (simp add: Let_def)
  next
    case False
    then have "ipAddress d \<in> ipAddress ` set registry" by (simp add: search_devices_None)
    from merge_devices_keeps [OF this] Cons.IH [of registry] False
    show ?thesis by (auto simp: Let_def)
  qed
qed

lemma merge_devices_known:
  "ipAddress ` set devices \<subseteq> ipAddress ` set registry \<Longrightarrow> merge_devices registry devices = registry"
  by (induction devices arbitrary: registry) (auto simp: Let_def search_devices_None)

lemma merge_devices_idem:
  "merge_devices (merge_devices registry devices) devices = merge_devices registry devices"
  by (rule merge_devices_known) (rule merge_devices_covers)

text \<open>
  Claim C5. A snapshot merged a second time leaves the registry as the first merge
  left it: both merges return, and the devices after the second are the devices after
  the first.
\<close>

theorem C5_merge_idempotent:
  "\<exists>s1 s2. receive_connected_iot_devices J s snapshot = Inr s1
     \<and> receive_connected_iot_devices J s1 snapshot = Inr s2
     \<and> self_devices s2 = self_devices s1"
  by (simp add: receive_connected_iot_devices_eq merge_devices_idem)

section \<open>Remote updates\<close>

text \<open>
  Claim C4. Handling a remote update returns and leaves the log of emitted events as
  it was: neither the update of the device nor the refresh of the table, whose items
  it sets under \<^verbatim>\<open>internal_change\<close>, sends anything.
\<close>

theorem C4_remote_update_emits_nothing:
  "\<exists>s'. receive_iot_device_update J s update = Inr s' \<and> sio_emitted s' = sio_emitted s"
  by (simp add: receive_iot_device_update_def populate_table_eq store_device_def split: option.split)

theorem C4_witness:
  "\<exists>s'. receive_iot_device_update sample_json sample_app sample_update = Inr s'
     \<and> sio_emitted s' = []"
  using C4_remote_update_emits_nothing [of sample_json sample_app sample_update]
  by (simp add: sample_app_def)

text \<open>
  Claim C6. A remote update returns and keeps the number of devices. When no device has
  its address, the registry is unchanged. When one has, the device that the lookup
  finds gets the state and the status of the update and \<open>connected = True\<close>, keeps its
  address, name, description and fault status, and every other position of the
  registry is unchanged.
\<close>

theorem C6_remote_update_frame:
  "\<exists>s'. receive_iot_device_update J s update = Inr s'
     \<and> length (self_devices s') = length (self_devices s)
     \<and> (upd_ipAddress update \<notin> ipAddress ` set (self_devices s) \<longrightarrow>
          self_devices s' = self_devices s)
     \<and> (upd_ipAddress update \<in> ipAddress ` set (self_devices s) \<longrightarrow>
          (\<exists>i. search_devices (self_devices s) (upd_ipAddress update) = Some i
             \<and> i < length (self_devices s)
             \<and> ipAddress (self_devices s ! i) = upd_ipAddress update
             \<and> state (self_devices s' ! i) = upd_state update
             \<and> status (self_devices s' ! i) = upd_status update
             \<and> connected (self_devices s' ! i)
             \<and> ipAddress (self_devices s' ! i) = ipAddress (self_devices s ! i)
             \<and> name (self_devices s' ! i) = name (self_devices s ! i)
             \<and> description (self_devices s' ! i) = description (self_devices s ! i)
             \<and> faultStatus (self_devices s' ! i) = faultStatus (self_devices s ! i)
             \<and> (\<forall>j. j \<noteq> i \<longrightarrow> self_devices s' ! j = self_devices s ! j)))"
proof (cases "search_devices (self_devices s) (upd_ipAddress update)")
  case None
  then have "upd_ipAddress update \<notin> ipAddress ` set (self_devices s)"
    by (simp add: search_devices_None)
  then show ?thesis
    by (simp add: receive_iot_device_update_def None populate_table_eq)
next
  case (Some i)
  note found = search_devices_Some [OF Some]
  from Some have "upd_ipAddress update \<in> ipAddress ` set (self_devices s)"
    using search_devices_None [of "self_devices s" "upd_ipAddress update"] by simp
  with Some found show ?thesis
    by (simp add: receive_iot_device_update_def populate_table_eq store_device_def)
qed

theorem C6_witness:
  "(\<exists>s'. receive_iot_device_update sample_json two_device_app sample_update = Inr s'
      \<and> self_devices s' =
          [sample_device\<lparr>state := textual_boolean_state, status := ''On'', connected := True\<rparr>,
           remote_device\<lparr>connected := True\<rparr>])
   \<and> (\<exists>s'. receive_iot_device_update sample_json two_device_app unknown_update = Inr s'
      \<and> self_devices s' = self_devices two_device_app)"
proof -
  obtain s1 where s1: "receive_iot_device_update sample_json two_device_app sample_update = Inr s1"
      "length (self_devices s1) = 2"
      "state (self_devices s1 ! 0) = textual_boolean_state"
      "status (self_devices s1 ! 0) = ''On''"
      "connected (self_devices s1 ! 0)"
      "ipAddress (self_devices s1 ! 0) = ''10.0.0.5''"
      "name (self_devices s1 ! 0) = ''Thermostat''"
      "description (self_devices s1 ! 0) = ''Hall''"
      "faultStatus (self_devices s1 ! 0) = ''Ok''"
      "self_devices s1 ! 1 = remote_device\<lparr>connected := True\<rparr>"
    using C6_remote_update_frame [of sample_json two_device_app sample_update]
    by (auto simp: two_device_app_def sample_update_def sample_device_def remote_device_def)
  from s1(2) obtain d0 d1 where ds: "self_devices s1 = [d0, d1]"
    by (auto simp: length_Suc_conv numeral_2_eq_2)
  with s1 have "d0 = sample_device\<lparr>state := textual_boolean_state, status := ''On'', connected := True\<rparr>"
      and "d1 = remote_device\<lparr>connected := True\<rparr>"
    by (simp_all add: sample_device_def)
  with ds s1(1) have first: "\<exists>s'. receive_iot_device_update sample_json two_device_app sample_update = Inr s'
      \<and> self_devices s' =
          [sample_device\<lparr>state := textual_boolean_state, status := ''On'', connected := True\<rparr>,
           remote_device\<lparr>connected := True\<rparr>]"
    by simp
  have second: "\<exists>s'. receive_iot_device_update sample_json two_device_app unknown_update = Inr s'
      \<and> self_devices s' = self_devices two_device_app"
    using C6_remote_update_frame [of sample_json two_device_app unknown_update]
    by (auto simp: two_device_app_def unknown_update_def sample_device_def remote_device_def)
  from first second show ?thesis by blast
qed

section \<open>The bulk announcement\<close>

text \<open>
  Claim C9. \<^verbatim>\<open>send_unconnected_iot_devices\<close> leaves the registry as it is. On a
  connected channel it emits one event, whose data are the copies, without the field
  \<open>connected\<close>, of the devices with \<open>connected = False\<close>, in the order of the registry
  and of no other device; on a channel that is not connected it does nothing. The
  copies are of the type \<open>payload\<close>, which has no field \<open>connected\<close>.
\<close>

theorem C9_bulk_announcement:
  "self_devices (send_unconnected_iot_devices s) = self_devices s
   \<and> (self_connected s \<longrightarrow>
        sio_emitted (send_unconnected_iot_devices s) =
          sio_emitted s @
            [Unconnected_iot_devices
               (map payload.truncate (filter (\<lambda>device. \<not> connected device) (self_devices s)))])
   \<and> (\<not> self_connected s \<longrightarrow> send_unconnected_iot_devices s = s)"
  by (simp add: send_unconnected_iot_devices_def sio_emit_def)

theorem C9_witness:
  "self_connected (two_device_app\<lparr>self_connected := True\<rparr>)
   \<and> self_devices (send_unconnected_iot_devices (two_device_app\<lparr>self_connected := True\<rparr>))
       = [sample_device, remote_device\<lparr>connected := True\<rparr>]
   \<and> sio_emitted (send_unconnected_iot_devices (two_device_app\<lparr>self_connected := True\<rparr>))
       = [Unconnected_iot_devices
            [\<lparr>ipAddress = ''10.0.0.5'', name = ''Thermostat'', description = ''Hall'',
              state = sample_state, status = ''Off'', faultStatus = ''Ok''\<rparr>]]
   \<and> send_unconnected_iot_devices two_device_app = two_device_app"
  using C9_bulk_announcement [of "two_device_app\<lparr>self_connected := True\<rparr>"]
    C9_bulk_announcement [of two_device_app]
  by (simp add: two_device_app_def sample_device_def remote_device_def payload.defs device.defs)

section \<open>Booleans at rest\<close>

lemma for_each_Inr:
  "for_each f xs = Inr ys \<Longrightarrow> list_all2 (\<lambda>x y. f x = Inr y) xs ys"
  by (induction xs arbitrary: ys) (auto simp: and_then_def split: sum.splits)

lemma coerce_entry_at_rest: "coerce_entry e = Inr e' \<Longrightarrow> entry_boolean_at_rest e'"
proof (cases e)
  case (JObj kvs)
  assume "coerce_entry e = Inr e'"
  with JObj show ?thesis
    by (auto simp: coerce_entry_def and_then_def update_conv' split: option.splits if_splits)
qed (simp_all add: coerce_entry_def and_then_def)

lemma coerce_entries_at_rest:
  "for_each coerce_entry es = Inr es' \<Longrightarrow> list_all entry_boolean_at_rest es'"
proof -
  assume "for_each coerce_entry es = Inr es'"
  then have "list_all2 (\<lambda>x y. coerce_entry x = Inr y) es es'" by (rule for_each_Inr)
  then show ?thesis
    by (induction rule: list_all2_induct) (simp_all add: coerce_entry_at_rest)
qed

lemma coerce_state_at_rest: "coerce_state st = Inr st' \<Longrightarrow> booleans_at_rest st'"
  by (cases st) (auto simp: coerce_state_def and_then_def coerce_entries_at_rest split: sum.splits)

lemma read_device_at_rest: "read_device J row = Inr d \<Longrightarrow> booleans_at_rest (state d)"
  by (auto simp: read_device_def and_then_def coerce_state_at_rest split: option.splits sum.splits)

text \<open>
  The bulk load coerces: when it returns, every state entry with the datatype
  \<^verbatim>\<open>"boolean"\<close> of every device it returns has a boolean value.
\<close>

lemma bulk_load_booleans_at_rest:
  "read_unconnected_iot_devices J rows = Inr devices \<Longrightarrow>
   list_all (\<lambda>device. booleans_at_rest (state device)) devices"
proof -
  assume "read_unconnected_iot_devices J rows = Inr devices"
  then have "list_all2 (\<lambda>x y. read_device J x = Inr y) rows devices"
    unfolding read_unconnected_iot_devices_def by (rule for_each_Inr)
  then show ?thesis
    by (induction rule: list_all2_induct) (simp_all add: read_device_at_rest)
qed

lemma bulk_load_sample:
  "read_unconnected_iot_devices sample_json [sample_row] =
     Inr [\<lparr>ipAddress = ''10.0.0.6'', name = ''Switch'', description = ''Door'',
           state = JArr [JObj [(''fieldName'', JStr ''on''), (''datatype'', JStr ''boolean''),
                               (''value'', JBool True)]],
           status = ''Off'', faultStatus = ''Ok'', connected = False\<rparr>]"
  by (simp add: read_unconnected_iot_devices_def read_device_def sample_json_def
        sample_row_def textual_boolean_state_def coerce_state_def coerce_entry_def and_then_def)

text \<open>What a merge appends are devices of the snapshot, marked as connected.\<close>

lemma merge_devices_appends:
  "\<exists>extra. merge_devices registry devices = registry @ extra
     \<and> set extra \<subseteq> (\<lambda>device. device\<lparr>connected := True\<rparr>) ` set devices"
proof (induction devices arbitrary: registry)
  case Nil
  then show ?case by simp
next
  case (Cons d ds)
  show ?case
  proof (cases "search_devices registry (ipAddress d) = None")
    case True
    from Cons.IH [of "registry @ [d\<lparr>connected := True\<rparr>]"] obtain extra
      where "merge_devices (registry @ [d\<lparr>connected := True\<rparr>]) ds
               = (registry @ [d\<lparr>connected := True\<rparr>]) @ extra"
        and "set extra \<subseteq> (\<lambda>device. device\<lparr>connected := True\<rparr>) ` set ds"
      by blast
    with True have "merge_devices registry (d # ds) = registry @ (d\<lparr>connected := True\<rparr> # extra)
        \<and> set (d\<lparr>connected := True\<rparr> # extra)
            \<subseteq> (\<lambda>device. device\<lparr>connected := True\<rparr>) ` set (d # ds)"
      by (auto simp: Let_def)
    then show ?thesis by blast
  next
    case False
    from Cons.IH [of registry] obtain extra
      where "merge_devices registry ds = registry @ extra"
        and "set extra \<subseteq> (\<lambda>device. device\<lparr>connected := True\<rparr>) ` set ds"
      by blast
    with False have "merge_devices registry (d # ds) = registry @ extra
        \<and> set extra \<subseteq> (\<lambda>device. device\<lparr>connected := True\<rparr>) ` set (d # ds)"
      by (auto simp: Let_def)
    then show ?thesis by blast
  qed
qed

text \<open>
  Claim C7, on the remote paths. The handler of the remote update returns and leaves
  in the device that the lookup finds the state of the update, as it arrived. The
  handler of the remote snapshot returns, keeps the devices of the registry in front,
  and what it appends are devices of the snapshot that differ from what arrived in
  \<open>connected = True\<close> only; every address of the snapshot is in the registry
  afterwards. Neither handler coerces a value, so a boolean entry that arrives with a
  text is stored with the text.
\<close>

theorem C7_remote_paths_store_state_as_received:
  "(\<forall>i. search_devices (self_devices s) (upd_ipAddress update) = Some i \<longrightarrow>
      (\<exists>s'. receive_iot_device_update J s update = Inr s'
         \<and> state (self_devices s' ! i) = upd_state update))
   \<and> (\<exists>s' extra. receive_connected_iot_devices J s devices = Inr s'
         \<and> self_devices s' = self_devices s @ extra
         \<and> set extra \<subseteq> (\<lambda>device. device\<lparr>connected := True\<rparr>) ` set devices
         \<and> ipAddress ` set devices \<subseteq> ipAddress ` set (self_devices s'))"
proof -
  have update_path: "\<exists>s'. receive_iot_device_update J s update = Inr s'
         \<and> state (self_devices s' ! i) = upd_state update"
    if found: "search_devices (self_devices s) (upd_ipAddress update) = Some i" for i
    using found search_devices_Some [OF found]
    by (simp add: receive_iot_device_update_def populate_table_eq store_device_def)
  obtain extra where extra: "merge_devices (self_devices s) devices = self_devices s @ extra"
      "set extra \<subseteq> (\<lambda>device. device\<lparr>connected := True\<rparr>) ` set devices"
    using merge_devices_appends by blast
  have "ipAddress ` set devices \<subseteq> ipAddress ` set (merge_devices (self_devices s) devices)"
    by (rule merge_devices_covers)
  with extra have snapshot_path: "\<exists>s' extra. receive_connected_iot_devices J s devices = Inr s'
         \<and> self_devices s' = self_devices s @ extra
         \<and> set extra \<subseteq> (\<lambda>device. device\<lparr>connected := True\<rparr>) ` set devices
         \<and> ipAddress ` set devices \<subseteq> ipAddress ` set (self_devices s')"
    by (simp add: receive_connected_iot_devices_eq)
  from update_path snapshot_path show ?thesis by blast
qed

text \<open>
  At a concrete input: the update and the snapshot carry a boolean entry with the text
  \<^verbatim>\<open>"false"\<close>, and the registry holds it as a text afterwards.
\<close>

theorem C7_witness:
  "search_devices (self_devices sample_app) (upd_ipAddress sample_update) = Some 0
   \<and> (\<exists>s'. receive_iot_device_update sample_json sample_app sample_update = Inr s'
         \<and> state (self_devices s' ! 0) = textual_boolean_state
         \<and> \<not> booleans_at_rest (state (self_devices s' ! 0)))
   \<and> (\<exists>s'. receive_connected_iot_devices sample_json sample_app
                [remote_device\<lparr>state := textual_boolean_state\<rparr>] = Inr s'
         \<and> self_devices s' =
               [sample_device, remote_device\<lparr>state := textual_boolean_state, connected := True\<rparr>]
         \<and> \<not> booleans_at_rest (state (self_devices s' ! 1)))"
proof -
  have found: "search_devices (self_devices sample_app) (upd_ipAddress sample_update) = Some 0"
    by (simp add: sample_app_def sample_device_def sample_update_def)
  have text_kept: "\<not> booleans_at_rest textual_boolean_state"
    by (simp add: textual_boolean_state_def)
  from C7_remote_paths_store_state_as_received
         [of sample_app sample_update sample_json "[remote_device\<lparr>state := textual_boolean_state\<rparr>]"]
    found
  obtain s1 s2 extra
    where s1: "receive_iot_device_update sample_json sample_app sample_update = Inr s1"
        "state (self_devices s1 ! 0) = upd_state sample_update"
      and s2: "receive_connected_iot_devices sample_json sample_app
                 [remote_device\<lparr>state := textual_boolean_state\<rparr>] = Inr s2"
    by blast
  from s1 text_kept have first: "\<exists>s'. receive_iot_device_update sample_json sample_app sample_update = Inr s'
         \<and> state (self_devices s' ! 0) = textual_boolean_state
         \<and> \<not> booleans_at_rest (state (self_devices s' ! 0))"
    by (simp add: sample_update_def)
  from s2 have "self_devices s2 =
      [sample_device, remote_device\<lparr>state := textual_boolean_state, connected := True\<rparr>]"
    by (auto simp: receive_connected_iot_devices_eq sample_app_def sample_device_def
          remote_device_def)
  with s2 text_kept have second: "\<exists>s'. receive_connected_iot_devices sample_json sample_app
                [remote_device\<lparr>state := textual_boolean_state\<rparr>] = Inr s'
         \<and> self_devices s' =
               [sample_device, remote_device\<lparr>state := textual_boolean_state, connected := True\<rparr>]
         \<and> \<not> booleans_at_rest (state (self_devices s' ! 1))"
    by simp
  from found first second show ?thesis by blast
qed

section \<open>What the schema accepts\<close>

lemma oneOf_value:
  "oneOf [type_string, type_number, type_boolean] v =
     (case v of JStr _ \<Rightarrow> True | JInt _ \<Rightarrow> True | JFloat _ \<Rightarrow> True | JBool _ \<Rightarrow> True | _ \<Rightarrow> False)"
  by (cases v) (simp_all add: oneOf_def)

lemma type_string_iff: "type_string v = (case v of JStr _ \<Rightarrow> True | _ \<Rightarrow> False)"
  by (cases v) simp_all

lemma schema_item_eq: "schema_item e = carries_fields e"
proof (cases e)
  case (JObj kvs)
  then show ?thesis
    by (auto simp: properties_def required_def oneOf_value type_string_iff
             split: option.splits json.splits)
qed simp_all

text \<open>
  Claim C8, as amended. The Validator accepts a candidate exactly when it is a list
  whose every element is a dictionary that has the keys \<^verbatim>\<open>fieldName\<close> and
  \<^verbatim>\<open>datatype\<close> with string values and the key \<^verbatim>\<open>value\<close> with a string, a number
  or a boolean; further keys are allowed.
\<close>

theorem C8_validator_accepts:
  "validate candidate \<longleftrightarrow> (\<exists>entries. candidate = JArr entries \<and> list_all carries_fields entries)"
proof (cases candidate)
  case (JArr entries)
  have "list_all schema_item entries = list_all carries_fields entries"
    by (induction entries) (simp_all add: schema_item_eq del: schema_item.simps carries_fields.simps)
  with JArr show ?thesis by (simp add: validate_def)
qed (simp_all add: validate_def)

theorem C8_witness:
  "validate sample_state \<and> validate textual_boolean_state
   \<and> \<not> validate (JArr [JObj [(''fieldName'', JStr ''temp''), (''datatype'', JStr ''number''),
                               (''value'', JNull)]])
   \<and> \<not> validate (JObj [])"
  using C8_validator_accepts [of sample_state] C8_validator_accepts [of textual_boolean_state]
    C8_validator_accepts [of "JArr [JObj [(''fieldName'', JStr ''temp''),
       (''datatype'', JStr ''number''), (''value'', JNull)]]"]
    C8_validator_accepts [of "JObj []"]
  by (simp add: sample_state_def textual_boolean_state_def)

text \<open>
  The claim as stated fails: an entry with a fourth field is accepted, although it
  does not carry exactly the three fields.
\<close>

theorem C8_counterexample:
  "validate extra_field_candidate \<and> \<not> spec_candidate extra_field_candidate"
  by (simp add: extra_field_candidate_def validate_def properties_def required_def oneOf_def)

section \<open>Local edits of the state\<close>

text \<open>
  A text that parses and that the schema rejects: the cell gets the current state of
  the device back, and nothing else changes.
\<close>

lemma handle_cell_change_rejected:
  "\<not> self_internal_change s \<Longrightarrow> table_item (self_table s) row 1 = Some ip_address \<Longrightarrow>
   search_devices (self_devices s) ip_address = Some i \<Longrightarrow> loads J text = Some instance \<Longrightarrow>
   \<not> validate instance \<Longrightarrow>
   handle_cell_change J s (row, 4, text) =
     Inr (s\<lparr>self_table := table_put (self_table s) row 4 (dumps J (state (self_devices s ! i))),
            self_internal_change := False\<rparr>)"
  by (simp add: handle_cell_change.simps setItem_internal and_then_def)

text \<open>
  Claim C1, at the texts that are not valid JSON: for a device of the registry, the
  edit of its state with a text that \<^verbatim>\<open>json.loads\<close> rejects leaves the handler with
  \<^verbatim>\<open>JSONDecodeError\<close>; the display is not reverted.
\<close>

theorem C1_invalid_json_raises:
  "\<not> self_internal_change s \<Longrightarrow> table_item (self_table s) row 1 = Some ip_address \<Longrightarrow>
   search_devices (self_devices s) ip_address = Some i \<Longrightarrow> loads J text = None \<Longrightarrow>
   handle_cell_change J s (row, 4, text) = Inl JSONDecodeError"
  by (simp add: handle_cell_change.simps)

theorem C1_witness:
  "\<not> self_internal_change sample_app
   \<and> table_item (self_table sample_app) 0 1 = Some ''10.0.0.5''
   \<and> search_devices (self_devices sample_app) ''10.0.0.5'' = Some 0
   \<and> loads sample_json ''[{'' = None
   \<and> handle_cell_change sample_json sample_app (0, 4, ''[{'') = Inl JSONDecodeError"
proof -
  have h1: "\<not> self_internal_change sample_app" by (simp add: sample_app_def)
  have h2: "table_item (self_table sample_app) 0 1 = Some ''10.0.0.5''"
    by (simp add: sample_app_def table_item_def)
  have h3: "search_devices (self_devices sample_app) ''10.0.0.5'' = Some 0"
    by (simp add: sample_app_def sample_device_def)
  have h4: "loads sample_json ''[{'' = None" by (simp add: sample_json_def)
  from h1 h2 h3 h4 C1_invalid_json_raises [OF h1 h2 h3 h4] show ?thesis by blast
qed

section \<open>Publication of local edits\<close>


text \<open>
  \<^verbatim>\<open>send_iot_device_update\<close> looks at the device only: for a connected device the
  event is handed to the client whatever \<^verbatim>\<open>self.connected\<close> is.
\<close>

lemma send_iot_device_update_connected:
  "connected device \<Longrightarrow>
   send_iot_device_update s device =
     s\<lparr>sio_emitted := sio_emitted s @ [Spoof_app_iot_device_update (payload.truncate device)]\<rparr>"
  by (simp add: send_iot_device_update_def sio_emit_def)

text \<open>
  Claim C2, at a concrete run: the application starts with an empty file, connects,
  receives a snapshot with one device and disconnects; the operator then sets the
  status of that device to \<^verbatim>\<open>Off\<close>. The channel is not connected at the end, and the
  edit has passed a device update to \<^verbatim>\<open>self.sio.emit\<close>.
\<close>

theorem C2_update_emitted_while_disconnected:
  "(case and_then (init sample_json []) (\<lambda>s0.
          and_then (receive_connected_iot_devices sample_json (connect_handler s0 True)
                      [remote_device]) (\<lambda>s1.
          setItem sample_json (disconnect_handler s1) 0 5 ''Off''))
    of Inl e \<Rightarrow> None
     | Inr s \<Rightarrow> Some (self_connected s, sio_emitted s))
   = Some (False,
       [Unconnected_iot_devices [],
        Spoof_app_iot_device_update
          \<lparr>ipAddress = ''10.0.0.9'', name = ''Lamp'', description = ''Porch'',
           state = JArr [], status = ''Off'', faultStatus = ''Ok''\<rparr>])"
  by (simp add: init_def read_unconnected_iot_devices_def and_then_def populate_table_eq
        connect_handler_def send_unconnected_iot_devices_def sio_emit_def
        receive_connected_iot_devices_eq remote_device_def setRowCount_def fill_row_def
        table_put_def disconnect_handler_def setItem.simps in_table_def
        handle_cell_change.simps table_item_def store_device_def send_iot_device_update_def
        payload.defs device.defs)

section \<open>An unconnected device whose address comes back in a snapshot\<close>




lemma length_table_put: "length (table_put t row col text) = length t"
  by (simp add: table_put_def)

















end
